theory Spec2Isabelle
  imports Complex_Main
begin

section \<open>Python values\<close>

text \<open>
  The values that cross the boundary of \<^verbatim>\<open>rasa_sdk/executor.py\<close>: the JSON payload of a
  request, the messages of the dispatcher and whatever a handler returns. A \<open>dict\<close> is an
  association list in insertion order with string keys, each key at most once. A float is
  given by its value; only its truth value is ever looked at.

  \<open>PObj m t a\<close> is an instance of any other class: \<open>m\<close> is \<^verbatim>\<open>type(e).__module__\<close>, \<open>t\<close>
  is its truth value (\<^verbatim>\<open>__bool__\<close> or \<^verbatim>\<open>__len__\<close>, true without them) and \<open>a\<close> is what
  the call \<^verbatim>\<open>e.as_dict()\<close> does: it returns a value (\<open>Inr\<close>), or it raises the named
  exception (\<open>Inl\<close>; \<^verbatim>\<open>AttributeError\<close> when the object has no such method). The class
  lives outside this repository, so its adapter is part of the input.
\<close>

datatype pyval =
    PNone
  | PBool bool
  | PInt int
  | PFloat real
  | PStr string
  | PList "pyval list"
  | PTuple "pyval list"
  | PDict "(string \<times> pyval) list"
  | PObj string bool "string + pyval"

text \<open>Python's truth value testing, as \<^verbatim>\<open>if x:\<close> and \<^verbatim>\<open>not x\<close> use it.\<close>

fun truthy :: "pyval \<Rightarrow> bool" where
  "truthy PNone = False"
| "truthy (PBool b) = b"
| "truthy (PInt i) = (i \<noteq> 0)"
| "truthy (PFloat x) = (x \<noteq> 0)"
| "truthy (PStr s) = (s \<noteq> [])"
| "truthy (PList xs) = (xs \<noteq> [])"
| "truthy (PTuple xs) = (xs \<noteq> [])"
| "truthy (PDict kvs) = (kvs \<noteq> [])"
| "truthy (PObj m t a) = t"

text \<open>\<^verbatim>\<open>d.get(k, default)\<close>, \<^verbatim>\<open>d[k] = v\<close> and \<^verbatim>\<open>d.update(other)\<close>.\<close>

definition dict_get :: "(string \<times> 'v) list \<Rightarrow> string \<Rightarrow> 'v \<Rightarrow> 'v" where
  "dict_get d k dflt = (case map_of d k of None \<Rightarrow> dflt | Some v \<Rightarrow> v)"

fun dict_setitem :: "(string \<times> 'v) list \<Rightarrow> string \<Rightarrow> 'v \<Rightarrow> (string \<times> 'v) list" where
  "dict_setitem [] k v = [(k, v)]"
| "dict_setitem ((k', v') # d) k v =
     (if k' = k then (k, v) # d else (k', v') # dict_setitem d k v)"


section \<open>Exceptions and log records\<close>

text \<open>
  The three \<^verbatim>\<open>raise Exception(...)\<close> of the module, each with the value its message
  formats; \<open>TypeError\<close> is what the interpreter raises on a keyword argument that names a
  parameter already passed, on an unhashable key and on a \<^verbatim>\<open>for\<close> over a value that
  cannot be iterated; \<open>Raised\<close> is an exception of a collaborator (a handler,
  \<^verbatim>\<open>Tracker.from_dict\<close>, the \<^verbatim>\<open>as_dict\<close> of a foreign event), by the name of its class.
\<close>

datatype exc_message =
    Only_three_parameters nat
  | Only_instances_or_subclasses_of_Action
  | No_registered_Action_found pyval

datatype exn =
    Exception exc_message
  | TypeError string
  | Raised string

datatype level = DEBUG | INFO | WARNING | ERROR

datatype log_message =
    Registered_function string
  | Skipping_built_in_Action string
  | Failed_to_register_package
  | Dict_without_event_property pyval pyval
  | Should_not_return_Rasa_actions
  | Returned_invalid_event pyval pyval
  | Received_request_to_run pyval
  | Finished_running pyval
  | Received_action_call_without_action

type_synonym log_record = "level \<times> log_message"

section \<open>CollectingDispatcher\<close>

record CollectingDispatcher =
  messages :: "pyval list"

definition CollectingDispatcher_init :: CollectingDispatcher where
  "CollectingDispatcher_init = \<lparr>messages = []\<rparr>"











section \<open>ActionExecutor\<close>

text \<open>
  A handler is a Python callable. \<open>arguments\<close> is what \<^verbatim>\<open>utils.arguments_of(f)\<close>
  returns for it (the names of its parameters; \<^verbatim>\<open>rasa_sdk/utils.py\<close> is not part of
  the sources at hand, so the list is a field of the handler). \<open>truth\<close> is its truth
  value: true for every function and bound method, and what \<^verbatim>\<open>__bool__\<close> or
  \<^verbatim>\<open>__len__\<close> says for a callable object that defines one. \<open>call\<close> is what calling it
  with a dispatcher, a tracker and a domain does: it raises, or it returns a value together
  with the dispatcher as the call left it.
\<close>

record handler =
  arguments :: "string list"
  truth :: bool
  call :: "CollectingDispatcher \<Rightarrow> pyval \<Rightarrow> pyval \<Rightarrow> exn + (pyval \<times> CollectingDispatcher)"

definition arguments_of :: "handler \<Rightarrow> string list" where
  "arguments_of f = arguments f"

text \<open>
  \<^verbatim>\<open>self.actions\<close> is a dict from action names (strings) to handlers. Every method is a
  function of the executor that returns what the call returns or raises, the executor as
  the call leaves it, and the log records it emits, in order.
\<close>

record ActionExecutor =
  actions :: "(string \<times> handler) list"

type_synonym 'a outcome = "(exn + 'a) \<times> ActionExecutor \<times> log_record list"

definition ActionExecutor_init :: ActionExecutor where
  "ActionExecutor_init = \<lparr>actions = []\<rparr>"

definition register_function :: "ActionExecutor \<Rightarrow> string \<Rightarrow> handler \<Rightarrow> unit outcome" where
  "register_function self name f =
     (let logs = [(INFO, Registered_function name)];
          valid_keys = arguments_of f
      in if length valid_keys < 3
         then (Inl (Exception (Only_three_parameters (length valid_keys))), self, logs)
         else (Inr (), self\<lparr>actions := dict_setitem (actions self) name f\<rparr>, logs))"

text \<open>
  The argument of \<^verbatim>\<open>register_action\<close>: a class (\<^verbatim>\<open>inspect.isclass\<close>), given by its
  \<^verbatim>\<open>__module__\<close> and the instance that calling it makes, or an instance. An instance
  is an \<^verbatim>\<open>Action\<close> (\<^verbatim>\<open>isinstance(action, Action)\<close>) with its \<^verbatim>\<open>name()\<close> and its bound
  \<^verbatim>\<open>run\<close>, or it is anything else.
\<close>

datatype action_instance = Is_Action string handler | Not_Action

datatype action_arg = Class string action_instance | Instance action_instance

definition startswith :: "string \<Rightarrow> string \<Rightarrow> bool" where
  "startswith s p = (take (length p) s = p)"

definition register_action :: "ActionExecutor \<Rightarrow> action_arg \<Rightarrow> unit outcome" where
  "register_action self action =
     (let register = (\<lambda>inst. case inst of
            Is_Action name run \<Rightarrow> register_function self name run
          | Not_Action \<Rightarrow> (Inl (Exception Only_instances_or_subclasses_of_Action), self, []))
      in case action of
           Class module' inst \<Rightarrow>
             if startswith module' ''rasa.''
             then (Inr (), self, [(WARNING, Skipping_built_in_Action module')])
             else register inst
         | Instance inst \<Rightarrow> register inst)"

definition create_api_response :: "pyval list \<Rightarrow> pyval list \<Rightarrow> pyval" where
  "create_api_response events msgs = PDict [(''events'', PList events), (''responses'', PList msgs)]"

text \<open>
  \<^verbatim>\<open>for e in events\<close>: the items a value yields when iterated, or the \<open>TypeError\<close> of a
  value that is not iterable. A dict yields its keys, a string its characters.
\<close>

fun iterate :: "pyval \<Rightarrow> exn + pyval list" where
  "iterate (PList xs) = Inr xs"
| "iterate (PTuple xs) = Inr xs"
| "iterate (PDict kvs) = Inr (map (\<lambda>(k, v). PStr k) kvs)"
| "iterate (PStr s) = Inr (map (\<lambda>c. PStr [c]) s)"
| "iterate v = Inl (TypeError ''object is not iterable'')"

text \<open>
  The body of the loop of \<^verbatim>\<open>validate_events\<close> on one item: \<open>validated\<close> and the log
  so far are the state. For an item of \<^verbatim>\<open>rasa.core.events\<close> the warning is logged first
  and \<^verbatim>\<open>e.as_dict()\<close> is called afterwards, outside any \<^verbatim>\<open>try\<close>: what it raises leaves
  the loop and the method.
\<close>

fun validate_event :: "pyval \<Rightarrow> pyval \<Rightarrow> pyval list \<times> log_record list
    \<Rightarrow> (exn + pyval list) \<times> log_record list" where
  "validate_event action_name (PDict d) (validated, logs) =
     (if \<not> truthy (dict_get d ''event'' PNone)
      then (Inr validated, logs @ [(ERROR, Dict_without_event_property action_name (PDict d))])
      else (Inr (validated @ [PDict d]), logs))"
| "validate_event action_name (PObj module' t as_dict) (validated, logs) =
     (if module' = ''rasa.core.events''
      then (let logs' = logs @ [(WARNING, Should_not_return_Rasa_actions)]
            in case as_dict of
                 Inl raised \<Rightarrow> (Inl (Raised raised), logs')
               | Inr d \<Rightarrow> (Inr (validated @ [d]), logs'))
      else (Inr validated,
            logs @ [(ERROR, Returned_invalid_event action_name (PObj module' t as_dict))]))"
| "validate_event action_name e (validated, logs) =
     (Inr validated, logs @ [(ERROR, Returned_invalid_event action_name e)])"

fun validate_loop :: "pyval \<Rightarrow> pyval list \<Rightarrow> pyval list \<times> log_record list
    \<Rightarrow> (exn + pyval list) \<times> log_record list" where
  "validate_loop action_name [] (validated, logs) = (Inr validated, logs)"
| "validate_loop action_name (e # es) (validated, logs) =
     (case validate_event action_name e (validated, logs) of
        (Inl err, logs') \<Rightarrow> (Inl err, logs')
      | (Inr validated', logs') \<Rightarrow> validate_loop action_name es (validated', logs'))"

definition validate_events :: "pyval \<Rightarrow> pyval \<Rightarrow> (exn + pyval list) \<times> log_record list" where
  "validate_events events action_name =
     (case iterate events of
        Inl err \<Rightarrow> (Inl err, [])
      | Inr es \<Rightarrow> validate_loop action_name es ([], []))"

text \<open>
  \<^verbatim>\<open>self.actions.get(action_name)\<close> for the value found under \<^verbatim>\<open>next_action\<close>: a list or
  a dict (or a tuple that holds one) is unhashable, and \<^verbatim>\<open>dict.get\<close> raises; a hashable
  value that is not a string equals no key.
\<close>

fun hashable :: "pyval \<Rightarrow> bool" where
  "hashable (PList xs) = False"
| "hashable (PDict kvs) = False"
| "hashable (PTuple xs) = list_all hashable xs"
| "hashable v = True"

definition actions_get :: "(string \<times> handler) list \<Rightarrow> pyval \<Rightarrow> exn + handler option" where
  "actions_get acts action_name =
     (if \<not> hashable action_name then Inl (TypeError ''unhashable type'')
      else case action_name of
             PStr name \<Rightarrow> Inr (map_of acts name)
           | _ \<Rightarrow> Inr None)"

text \<open>
  \<^verbatim>\<open>run\<close>. \<open>from_dict\<close> is \<^verbatim>\<open>Tracker.from_dict\<close> of
  \<^verbatim>\<open>rasa_sdk/interfaces.py\<close>, which is not part of the sources at hand: it is a
  parameter. \<^verbatim>\<open>if not action\<close> tests the truth value of what \<^verbatim>\<open>self.actions.get\<close>
  returned: \<^verbatim>\<open>None\<close> is falsy, and a handler is as its truth value says. A call that
  falls off the end of the method returns \<open>PNone\<close>.
\<close>

definition run :: "(pyval \<Rightarrow> exn + pyval) \<Rightarrow> ActionExecutor \<Rightarrow> (string \<times> pyval) list
    \<Rightarrow> pyval outcome" where
  "run from_dict self action_call =
     (let action_name = dict_get action_call ''next_action'' PNone
      in if truthy action_name
         then
           (let logs = [(DEBUG, Received_request_to_run action_name)]
            in case actions_get (actions self) action_name of
                 Inl err \<Rightarrow> (Inl err, self, logs)
               | Inr None \<Rightarrow>
                   (Inl (Exception (No_registered_Action_found action_name)), self, logs)
               | Inr (Some action) \<Rightarrow>
                   if \<not> truth action
                   then (Inl (Exception (No_registered_Action_found action_name)), self, logs)
                   else
                   (let tracker_json = dict_get action_call ''tracker'' PNone;
                        domain = dict_get action_call ''domain'' (PDict [])
                    in case from_dict tracker_json of
                         Inl err \<Rightarrow> (Inl err, self, logs)
                       | Inr tracker \<Rightarrow>
                           (case call action CollectingDispatcher_init tracker domain of
                              Inl err \<Rightarrow> (Inl err, self, logs)
                            | Inr (events, dispatcher) \<Rightarrow>
                                (let events' = (if \<not> truthy events then PList [] else events)
                                 in case validate_events events' action_name of
                                      (Inl err, vlogs) \<Rightarrow> (Inl err, self, logs @ vlogs)
                                    | (Inr validated_events, vlogs) \<Rightarrow>
                                        (Inr (create_api_response validated_events
                                                (messages dispatcher)),
                                         self,
                                         logs @ vlogs @ [(DEBUG, Finished_running action_name)])))))
         else (Inr PNone, self, [(WARNING, Received_action_call_without_action)]))"

section \<open>The specification's vocabulary\<close>







text \<open>
  The operations of the core on an executor, and the executor each leaves behind. A
  registry is well formed when it holds every name once, as a Python dict does.
\<close>

datatype operation =
    Register_function string handler
  | Register_action action_arg
  | Run "(string \<times> pyval) list"

fun perform :: "(pyval \<Rightarrow> exn + pyval) \<Rightarrow> ActionExecutor \<Rightarrow> operation \<Rightarrow> ActionExecutor" where
  "perform from_dict self (Register_function name f) = fst (snd (register_function self name f))"
| "perform from_dict self (Register_action action) = fst (snd (register_action self action))"
| "perform from_dict self (Run action_call) = fst (snd (run from_dict self action_call))"

fun registers_under :: "string \<Rightarrow> operation \<Rightarrow> bool" where
  "registers_under name (Register_function name' f) = (name' = name)"
| "registers_under name (Register_action (Class module' (Is_Action name' f))) = (name' = name)"
| "registers_under name (Register_action (Instance (Is_Action name' f))) = (name' = name)"
| "registers_under name op = False"

definition entries_under :: "ActionExecutor \<Rightarrow> string \<Rightarrow> handler list" where
  "entries_under self name = map snd (filter (\<lambda>(k, f). k = name) (actions self))"

section \<open>Dictionaries: lookup after update\<close>

lemma map_of_dict_setitem: "map_of (dict_setitem d k v) = (map_of d)(k \<mapsto> v)"
  by (induction d) (auto simp: fun_eq_iff)

lemma keys_dict_setitem:
  "map fst (dict_setitem d k v) = (if k \<in> fst ` set d then map fst d else map fst d @ [k])"
  by (induction d) force+

lemma distinct_dict_setitem:
  "distinct (map fst d) \<Longrightarrow> distinct (map fst (dict_setitem d k v))"
  by (simp add: keys_dict_setitem)







lemma filter_key_dict_setitem:
  "distinct (map fst d) \<Longrightarrow> filter (\<lambda>(k', f). k' = k) (dict_setitem d k v) = [(k, v)]"
proof (induction d)
  case Nil
  show ?case by simp
next
  case (Cons kv d)
  obtain k' v' where kv: "kv = (k', v')" by (cases kv)
  show ?case
  proof (cases "k' = k")
    case True
    with Cons.prems have "\<forall>p \<in> set d. fst p \<noteq> k"
      by (auto simp: kv)
    then have "filter (\<lambda>(k', f). k' = k) d = []"
      by (auto simp: filter_empty_conv)
    with True show ?thesis by (simp add: kv)
  next
    case False
    with Cons show ?thesis by (simp add: kv)
  qed
qed


section \<open>The event validator is a filter that an adapter can interrupt\<close>


lemma validate_event_shift:
  "validate_event n e (validated, logs) =
     (case validate_event n e ([], []) of
        (r, logs') \<Rightarrow>
          (case r of Inl err \<Rightarrow> Inl err | Inr vs \<Rightarrow> Inr (validated @ vs), logs @ logs'))"
  by (cases e) (auto simp: Let_def split: sum.splits)


lemma validate_loop_append:
  "validate_loop n (xs @ ys) acc =
     (case validate_loop n xs acc of
        (Inl err, logs) \<Rightarrow> (Inl err, logs)
      | (Inr validated, logs) \<Rightarrow> validate_loop n ys (validated, logs))"
proof (induction xs arbitrary: acc)
  case Nil
  show ?case by (cases acc) simp
next
  case (Cons x xs)
  obtain validated logs where acc: "acc = (validated, logs)" by (cases acc)
  obtain r logs' where step: "validate_event n x (validated, logs) = (r, logs')"
    by (cases "validate_event n x (validated, logs)")
  show ?case
  proof (cases r)
    case (Inl err)
    with step show ?thesis by (simp add: acc)
  next
    case (Inr validated')
    with step show ?thesis by (simp add: acc Cons.IH)
  qed
qed

lemma validate_loop_shift:
  "validate_loop n es (validated, logs) =
     (case validate_loop n es ([], []) of
        (r, logs') \<Rightarrow>
          (case r of Inl err \<Rightarrow> Inl err | Inr vs \<Rightarrow> Inr (validated @ vs), logs @ logs'))"
proof (induction es arbitrary: validated logs)
  case Nil
  show ?case by simp
next
  case (Cons e es)
  obtain r1 l1 where e0: "validate_event n e ([], []) = (r1, l1)"
    by (cases "validate_event n e ([], [])")
  have ev: "validate_event n e (validated, logs) =
      (case r1 of Inl err \<Rightarrow> Inl err | Inr vs \<Rightarrow> Inr (validated @ vs), logs @ l1)"
    using validate_event_shift [of n e validated logs] by (simp add: e0)
  show ?case
  proof (cases r1)
    case (Inl err)
    with ev e0 show ?thesis by simp
  next
    case (Inr v1)
    obtain r l' where rest: "validate_loop n es ([], []) = (r, l')"
      by (cases "validate_loop n es ([], [])")
    have a: "validate_loop n es (validated @ v1, logs @ l1) =
        (case r of Inl err \<Rightarrow> Inl err | Inr vs \<Rightarrow> Inr ((validated @ v1) @ vs),
         (logs @ l1) @ l')"
      using Cons.IH [of "validated @ v1" "logs @ l1"] by (simp add: rest)
    have b: "validate_loop n es (v1, l1) =
        (case r of Inl err \<Rightarrow> Inl err | Inr vs \<Rightarrow> Inr (v1 @ vs), l1 @ l')"
      using Cons.IH [of v1 l1] by (simp add: rest)
    have lhs: "validate_loop n (e # es) (validated, logs) =
        validate_loop n es (validated @ v1, logs @ l1)"
      using ev Inr by simp
    have rhs: "validate_loop n (e # es) ([], []) = validate_loop n es (v1, l1)"
      using e0 Inr by simp
    show ?thesis
      unfolding lhs rhs a b by (cases r) simp_all
  qed
qed

lemma validate_events_list:
  "validate_events (PList es) n = validate_loop n es ([], [])"
  by (simp add: validate_events_def)


lemma validate_events_around:
  assumes "validate_events (PList xs) n = (Inr vx, lx)"
    and "validate_event n e (vx, lx) = (Inr (vx @ ve), lx @ le)"
    and "validate_events (PList ys) n = (r, ly)"
  shows "validate_events (PList (xs @ e # ys)) n =
     (case r of Inl err \<Rightarrow> Inl err | Inr vy \<Rightarrow> Inr (vx @ ve @ vy), lx @ le @ ly)"
proof -
  have "validate_events (PList (xs @ e # ys)) n = validate_loop n (e # ys) (vx, lx)"
    using assms(1) by (simp add: validate_events_list validate_loop_append)
  also have "\<dots> = validate_loop n ys (vx @ ve, lx @ le)"
    using assms(2) by simp
  also have "\<dots> =
      (case r of Inl err \<Rightarrow> Inl err | Inr vs \<Rightarrow> Inr ((vx @ ve) @ vs), (lx @ le) @ ly)"
    using assms(3) validate_loop_shift [of n ys "vx @ ve" "lx @ le"]
    by (simp add: validate_events_list)
  finally show ?thesis by (cases r) simp_all
qed

lemma validate_events_raise_at:
  assumes "validate_events (PList xs) n = (Inr vx, lx)"
  shows "validate_events (PList (xs @ PObj ''rasa.core.events'' t (Inl raised) # ys)) n =
     (Inl (Raised raised), lx @ [(WARNING, Should_not_return_Rasa_actions)])"
  using assms by (simp add: validate_events_list validate_loop_append)

section \<open>The executor an operation leaves behind\<close>

lemma register_function_state:
  "fst (snd (register_function self name f)) =
     (if length (arguments_of f) < 3 then self
      else self\<lparr>actions := dict_setitem (actions self) name f\<rparr>)"
  by (simp add: register_function_def Let_def)

lemma run_state: "fst (snd (run from_dict self action_call)) = self"
  by (simp add: run_def Let_def split: sum.splits option.splits prod.splits)

lemma register_action_state:
  "fst (snd (register_action self action)) =
     (case action of
        Class module' (Is_Action name f) \<Rightarrow>
          if startswith module' ''rasa.'' then self else fst (snd (register_function self name f))
      | Instance (Is_Action name f) \<Rightarrow> fst (snd (register_function self name f))
      | _ \<Rightarrow> self)"
  by (simp add: register_action_def split: action_arg.splits action_instance.splits)

lemma perform_distinct:
  "distinct (map fst (actions self)) \<Longrightarrow>
   distinct (map fst (actions (perform from_dict self op)))"
  by (cases op)
    (auto simp: register_function_state register_action_state run_state distinct_dict_setitem
       split: action_arg.splits action_instance.splits)

lemma perform_keeps:
  "\<not> registers_under name op \<Longrightarrow>
   map_of (actions (perform from_dict self op)) name = map_of (actions self) name"
  by (cases op)
    (auto simp: register_function_state register_action_state run_state map_of_dict_setitem
       split: action_arg.splits action_instance.splits)

lemma foldl_perform_distinct:
  "distinct (map fst (actions self)) \<Longrightarrow>
   distinct (map fst (actions (foldl (perform from_dict) self ops)))"
  by (induction ops arbitrary: self) (simp_all add: perform_distinct)

lemma foldl_perform_keeps:
  "\<forall>op \<in> set ops. \<not> registers_under name op \<Longrightarrow>
   map_of (actions (foldl (perform from_dict) self ops)) name = map_of (actions self) name"
  by (induction ops arbitrary: self) (simp_all add: perform_keeps)

section \<open>Dispatch: \<open>run\<close>\<close>




text \<open>
  Claim C4. A request whose \<open>next_action\<close> is a name (a truthy, hashable value) that the
  registry does not hold makes \<open>run\<close> raise the not-found exception, which carries that
  name. No response record is returned, the executor is as it was, and the only log
  record is the debug line of the request.
\<close>

theorem run_unknown_action:
  assumes "map_of action_call ''next_action'' = Some action_name"
    and "truthy action_name" and "hashable action_name"
    and "action_name \<notin> PStr ` fst ` set (actions self)"
  shows "run from_dict self action_call =
     (Inl (Exception (No_registered_Action_found action_name)), self,
      [(DEBUG, Received_request_to_run action_name)])"
proof -
  have get: "dict_get action_call ''next_action'' PNone = action_name"
    using assms(1) by (simp add: dict_get_def)
  have "actions_get (actions self) action_name = Inr None"
  proof (cases action_name)
    case (PStr name)
    with assms(4) have "name \<notin> fst ` set (actions self)" by auto
    then have "map_of (actions self) name = None" by (simp add: map_of_eq_None_iff)
    with PStr show ?thesis by (simp add: actions_get_def)
  qed (use assms(3) in \<open>simp_all add: actions_get_def\<close>)
  then show ?thesis
    using assms(2) by (simp add: run_def get Let_def)
qed

theorem run_unknown_action_example:
  "run Inr ActionExecutor_init
     [(''next_action'', PStr ''unknown_x''), (''tracker'', PDict []), (''domain'', PDict [])] =
     (Inl (Exception (No_registered_Action_found (PStr ''unknown_x''))), ActionExecutor_init,
      [(DEBUG, Received_request_to_run (PStr ''unknown_x''))])"
  using run_unknown_action [of "[(''next_action'', PStr ''unknown_x''), (''tracker'', PDict []),
      (''domain'', PDict [])]" "PStr ''unknown_x''" ActionExecutor_init Inr]
  by (simp add: ActionExecutor_init_def)

text \<open>
  Claim C7. A request without the key \<open>next_action\<close> makes \<open>run\<close> log one warning and
  return \<open>None\<close>: no exception, no response record, and the executor (so the registry) is
  as it was.
\<close>

theorem run_without_action_name:
  assumes "map_of action_call ''next_action'' = None"
  shows "run from_dict self action_call =
     (Inr PNone, self, [(WARNING, Received_action_call_without_action)])"
  using assms by (simp add: run_def dict_get_def)

theorem run_without_action_name_example:
  "run Inr ActionExecutor_init [(''tracker'', PDict []), (''domain'', PDict [])] =
     (Inr PNone, ActionExecutor_init, [(WARNING, Received_action_call_without_action)])"
  using run_without_action_name [of "[(''tracker'', PDict []), (''domain'', PDict [])]" Inr
      ActionExecutor_init]
  by simp

text \<open>
  Claim C10. A request whose \<open>next_action\<close> is the empty string takes the branch of the
  missing name: one warning, \<open>None\<close> returned, no exception, whatever the registry holds.
\<close>

theorem run_empty_action_name:
  assumes "map_of action_call ''next_action'' = Some (PStr [])"
  shows "run from_dict self action_call =
     (Inr PNone, self, [(WARNING, Received_action_call_without_action)])"
  using assms by (simp add: run_def dict_get_def)

theorem run_empty_action_name_example:
  "map_of (actions ActionExecutor_init) [] = None \<and>
   run Inr ActionExecutor_init
     [(''next_action'', PStr []), (''tracker'', PDict []), (''domain'', PDict [])] =
     (Inr PNone, ActionExecutor_init, [(WARNING, Received_action_call_without_action)])"
  using run_empty_action_name [of "[(''next_action'', PStr []), (''tracker'', PDict []),
      (''domain'', PDict [])]" Inr ActionExecutor_init]
  by (simp add: ActionExecutor_init_def)

section \<open>The event validator\<close>




text \<open>
  Claim C6, as the code has it. For an item whose type lives in \<^verbatim>\<open>rasa.core.events\<close>,
  reached by the loop, the validator logs one warning and calls the item's \<^verbatim>\<open>as_dict\<close>.
  When the adapter returns, the record stands in the output where the item stood among the
  accepted items and the warning in its place among the diagnostics: the item is not
  dropped, and the items after it are validated as they are without it. When the adapter
  raises, the validator raises the same exception after the warning.
\<close>

theorem framework_event_converted_in_place:
  assumes "validate_events (PList xs) action_name = (Inr vx, lx)"
  shows "(validate_events (PList ys) action_name = (r, ly) \<longrightarrow>
      validate_events (PList (xs @ PObj ''rasa.core.events'' t (Inr d) # ys)) action_name =
        (case r of Inl err \<Rightarrow> Inl err | Inr vy \<Rightarrow> Inr (vx @ d # vy),
         lx @ (WARNING, Should_not_return_Rasa_actions) # ly))
    \<and> validate_events (PList (xs @ PObj ''rasa.core.events'' t (Inl raised) # ys)) action_name =
        (Inl (Raised raised), lx @ [(WARNING, Should_not_return_Rasa_actions)])"
proof (intro conjI impI)
  assume ys: "validate_events (PList ys) action_name = (r, ly)"
  have step: "validate_event action_name (PObj ''rasa.core.events'' t (Inr d)) (vx, lx) =
      (Inr (vx @ [d]), lx @ [(WARNING, Should_not_return_Rasa_actions)])"
    by simp
  show "validate_events (PList (xs @ PObj ''rasa.core.events'' t (Inr d) # ys)) action_name =
      (case r of Inl err \<Rightarrow> Inl err | Inr vy \<Rightarrow> Inr (vx @ d # vy),
       lx @ (WARNING, Should_not_return_Rasa_actions) # ly)"
    using validate_events_around [OF assms step ys] by (cases r) simp_all
next
  show "validate_events (PList (xs @ PObj ''rasa.core.events'' t (Inl raised) # ys)) action_name =
      (Inl (Raised raised), lx @ [(WARNING, Should_not_return_Rasa_actions)])"
    using assms by (rule validate_events_raise_at)
qed

text \<open>
  A foreign event between a well-formed dict and a string: converted in place when its
  adapter returns, and the end of the validation when it raises.
\<close>

theorem framework_event_example:
  "validate_events
     (PList [PDict [(''event'', PStr ''restart'')],
             PObj ''rasa.core.events'' True (Inr (PDict [(''event'', PStr ''slot'')])),
             PStr ''junk''])
     (PStr ''greet'') =
     (Inr [PDict [(''event'', PStr ''restart'')], PDict [(''event'', PStr ''slot'')]],
      [(WARNING, Should_not_return_Rasa_actions),
       (ERROR, Returned_invalid_event (PStr ''greet'') (PStr ''junk''))])
   \<and> validate_events
     (PList [PDict [(''event'', PStr ''restart'')],
             PObj ''rasa.core.events'' True (Inl ''KeyError''),
             PStr ''junk''])
     (PStr ''greet'') =
     (Inl (Raised ''KeyError''), [(WARNING, Should_not_return_Rasa_actions)])"
  using framework_event_converted_in_place
    [where xs = "[PDict [(''event'', PStr ''restart'')]]" and action_name = "PStr ''greet''"
       and vx = "[PDict [(''event'', PStr ''restart'')]]" and lx = "[]"
       and ys = "[PStr ''junk'']" and r = "Inr []"
       and ly = "[(ERROR, Returned_invalid_event (PStr ''greet'') (PStr ''junk''))]"
       and t = True and d = "PDict [(''event'', PStr ''slot'')]" and raised = "''KeyError''"]
  by (simp add: validate_events_def dict_get_def)

text \<open>
  A handler returns one object of \<^verbatim>\<open>rasa.core.events\<close> that has no \<^verbatim>\<open>as_dict\<close>: the
  request fails with the \<^verbatim>\<open>AttributeError\<close> of the call, after the warning.
\<close>

theorem framework_event_fails_request:
  "run Inr
     \<lparr>actions = [(''greet'',
        \<lparr>arguments = [''dispatcher'', ''tracker'', ''domain''], truth = True,
         call = (\<lambda>dispatcher tracker domain.
           Inr (PList [PObj ''rasa.core.events'' True (Inl ''AttributeError'')],
                dispatcher))\<rparr>)]\<rparr>
     [(''next_action'', PStr ''greet''), (''tracker'', PDict [])] =
   (Inl (Raised ''AttributeError''),
    \<lparr>actions = [(''greet'',
        \<lparr>arguments = [''dispatcher'', ''tracker'', ''domain''], truth = True,
         call = (\<lambda>dispatcher tracker domain.
           Inr (PList [PObj ''rasa.core.events'' True (Inl ''AttributeError'')],
                dispatcher))\<rparr>)]\<rparr>,
    [(DEBUG, Received_request_to_run (PStr ''greet'')),
     (WARNING, Should_not_return_Rasa_actions)])"
  by (simp add: validate_events_def dict_get_def run_def actions_get_def Let_def
      CollectingDispatcher_init_def)



section \<open>The output collector\<close>




section \<open>The registry\<close>

text \<open>
  Claim C3, as the code has it. \<open>register_function\<close> raises its exception if and only if
  the handler has fewer than three parameters. Then the exception carries their number and
  the registry is as it was. A handler with three or more parameters is registered: the
  call returns and the name leads to the handler.
\<close>

theorem register_function_arity_check:
  "(\<exists>err. fst (register_function self name f) = Inl err) = (length (arguments_of f) < 3)
   \<and> (length (arguments_of f) < 3 \<longrightarrow>
        fst (register_function self name f) =
          Inl (Exception (Only_three_parameters (length (arguments_of f))))
        \<and> fst (snd (register_function self name f)) = self)
   \<and> (3 \<le> length (arguments_of f) \<longrightarrow>
        fst (register_function self name f) = Inr ()
        \<and> map_of (actions (fst (snd (register_function self name f)))) name = Some f)"
  by (simp add: register_function_def Let_def map_of_dict_setitem)

text \<open>A handler of two parameters is refused, a handler of three is registered.\<close>

theorem register_function_arity_examples:
  "fst (register_function ActionExecutor_init ''two''
      \<lparr>arguments = [''dispatcher'', ''tracker''], truth = True,
       call = (\<lambda>dispatcher tracker domain. Inr (PNone, dispatcher))\<rparr>)
     = Inl (Exception (Only_three_parameters 2))
   \<and> fst (snd (register_function ActionExecutor_init ''two''
      \<lparr>arguments = [''dispatcher'', ''tracker''], truth = True,
       call = (\<lambda>dispatcher tracker domain. Inr (PNone, dispatcher))\<rparr>)) = ActionExecutor_init
   \<and> fst (register_function ActionExecutor_init ''three''
      \<lparr>arguments = [''dispatcher'', ''tracker'', ''domain''], truth = True,
       call = (\<lambda>dispatcher tracker domain. Inr (PNone, dispatcher))\<rparr>) = Inr ()
   \<and> map_of (actions (fst (snd (register_function ActionExecutor_init ''three''
      \<lparr>arguments = [''dispatcher'', ''tracker'', ''domain''], truth = True,
       call = (\<lambda>dispatcher tracker domain. Inr (PNone, dispatcher))\<rparr>)))) ''three''
     = Some \<lparr>arguments = [''dispatcher'', ''tracker'', ''domain''], truth = True,
       call = (\<lambda>dispatcher tracker domain. Inr (PNone, dispatcher))\<rparr>"
  using register_function_arity_check [of ActionExecutor_init "''two''"
      "\<lparr>arguments = [''dispatcher'', ''tracker''], truth = True,
       call = (\<lambda>dispatcher tracker domain. Inr (PNone, dispatcher))\<rparr>"]
    register_function_arity_check [of ActionExecutor_init "''three''"
      "\<lparr>arguments = [''dispatcher'', ''tracker'', ''domain''], truth = True,
       call = (\<lambda>dispatcher tracker domain. Inr (PNone, dispatcher))\<rparr>"]
  by (simp add: arguments_of_def)

text \<open>
  A handler of four parameters does not accept exactly three, and its registration
  raises nothing.
\<close>

theorem register_function_four_parameters:
  "length (arguments_of
      \<lparr>arguments = [''self'', ''dispatcher'', ''tracker'', ''domain''], truth = True,
       call = (\<lambda>dispatcher tracker domain. Inr (PNone, dispatcher))\<rparr>) \<noteq> 3
   \<and> fst (register_function ActionExecutor_init ''four''
      \<lparr>arguments = [''self'', ''dispatcher'', ''tracker'', ''domain''], truth = True,
       call = (\<lambda>dispatcher tracker domain. Inr (PNone, dispatcher))\<rparr>) = Inr ()"
  by (simp add: register_function_def arguments_of_def)

text \<open>
  Claim C8. After \<open>register_function\<close> has registered \<open>f\<close> under a name, the name leads to
  \<open>f\<close> through every sequence of operations of the core (registrations under other names,
  \<open>register_action\<close>, \<open>run\<close>) that does not register under that name again. Registering
  \<open>g\<close> under the name afterwards leaves one entry under it, and it is \<open>g\<close>.
\<close>

theorem registration_kept_until_overwritten:
  assumes "3 \<le> length (arguments_of f)" and "3 \<le> length (arguments_of g)"
    and "distinct (map fst (actions self))"
    and "\<forall>op \<in> set ops. \<not> registers_under name op"
  shows "map_of (actions (foldl (perform from_dict)
            (fst (snd (register_function self name f))) ops)) name = Some f
    \<and> map_of (actions (fst (snd (register_function
            (foldl (perform from_dict) (fst (snd (register_function self name f))) ops)
            name g)))) name = Some g
    \<and> entries_under (fst (snd (register_function
            (foldl (perform from_dict) (fst (snd (register_function self name f))) ops)
            name g))) name = [g]"
proof -
  let ?s1 = "fst (snd (register_function self name f))"
  let ?s2 = "foldl (perform from_dict) ?s1 ops"
  let ?s3 = "fst (snd (register_function ?s2 name g))"
  have s1: "map_of (actions ?s1) name = Some f"
    using assms(1) by (simp add: register_function_state map_of_dict_setitem)
  have "distinct (map fst (actions ?s1))"
    using assms(1,3) by (simp add: register_function_state distinct_dict_setitem)
  then have d2: "distinct (map fst (actions ?s2))"
    by (rule foldl_perform_distinct)
  have kept: "map_of (actions ?s2) name = Some f"
    using foldl_perform_keeps [OF assms(4), of from_dict ?s1] s1 by simp
  have s3: "actions ?s3 = dict_setitem (actions ?s2) name g"
    using assms(2) by (simp add: register_function_state)
  have over: "map_of (actions ?s3) name = Some g"
    by (simp add: s3 map_of_dict_setitem)
  have one: "entries_under ?s3 name = [g]"
    by (simp add: entries_under_def s3 filter_key_dict_setitem [OF d2])
  from kept over one show ?thesis by blast
qed

text \<open>
  \<open>greet\<close> survives a refused registration, a registration under another name, a skipped
  built-in class, a request that runs it and a request for an unknown action; registering
  it a second time leaves one entry.
\<close>

theorem registration_kept_example:
  "map_of (actions (foldl (perform Inr)
       (fst (snd (register_function ActionExecutor_init ''greet''
          \<lparr>arguments = [''dispatcher'', ''tracker'', ''domain''], truth = True,
           call = (\<lambda>dispatcher tracker domain. Inr (PNone, dispatcher))\<rparr>)))
       [Register_function ''bye''
          \<lparr>arguments = [''dispatcher'', ''tracker''], truth = True,
           call = (\<lambda>dispatcher tracker domain. Inr (PNone, dispatcher))\<rparr>,
        Register_function ''other''
          \<lparr>arguments = [''dispatcher'', ''tracker'', ''domain''], truth = True,
           call = (\<lambda>dispatcher tracker domain. Inr (PList [], dispatcher))\<rparr>,
        Register_action (Class ''rasa.core.actions'' Not_Action),
        Run [(''next_action'', PStr ''greet''), (''tracker'', PDict [])],
        Run [(''next_action'', PStr ''unknown_x'')]])) ''greet''
     = Some \<lparr>arguments = [''dispatcher'', ''tracker'', ''domain''], truth = True,
           call = (\<lambda>dispatcher tracker domain. Inr (PNone, dispatcher))\<rparr>
   \<and> entries_under (fst (snd (register_function
       (fst (snd (register_function ActionExecutor_init ''greet''
          \<lparr>arguments = [''dispatcher'', ''tracker'', ''domain''], truth = True,
           call = (\<lambda>dispatcher tracker domain. Inr (PNone, dispatcher))\<rparr>)))
       ''greet''
       \<lparr>arguments = [''dispatcher'', ''tracker'', ''domain''], truth = True,
        call = (\<lambda>dispatcher tracker domain. Inr (PNone, dispatcher))\<rparr>))) ''greet''
     = [\<lparr>arguments = [''dispatcher'', ''tracker'', ''domain''], truth = True,
         call = (\<lambda>dispatcher tracker domain. Inr (PNone, dispatcher))\<rparr>]"
  using registration_kept_until_overwritten
      [where self = ActionExecutor_init and name = "''greet''" and from_dict = Inr
         and f = "\<lparr>arguments = [''dispatcher'', ''tracker'', ''domain''], truth = True,
           call = (\<lambda>dispatcher tracker domain. Inr (PNone, dispatcher))\<rparr>"
         and g = "\<lparr>arguments = [''dispatcher'', ''tracker'', ''domain''], truth = True,
           call = (\<lambda>dispatcher tracker domain. Inr (PNone, dispatcher))\<rparr>"
         and ops = "[Register_function ''bye''
            \<lparr>arguments = [''dispatcher'', ''tracker''], truth = True,
             call = (\<lambda>dispatcher tracker domain. Inr (PNone, dispatcher))\<rparr>,
          Register_function ''other''
            \<lparr>arguments = [''dispatcher'', ''tracker'', ''domain''], truth = True,
             call = (\<lambda>dispatcher tracker domain. Inr (PList [], dispatcher))\<rparr>,
          Register_action (Class ''rasa.core.actions'' Not_Action),
          Run [(''next_action'', PStr ''greet''), (''tracker'', PDict [])],
          Run [(''next_action'', PStr ''unknown_x'')]]"]
    registration_kept_until_overwritten
      [where self = ActionExecutor_init and name = "''greet''" and from_dict = Inr
         and f = "\<lparr>arguments = [''dispatcher'', ''tracker'', ''domain''], truth = True,
           call = (\<lambda>dispatcher tracker domain. Inr (PNone, dispatcher))\<rparr>"
         and g = "\<lparr>arguments = [''dispatcher'', ''tracker'', ''domain''], truth = True,
           call = (\<lambda>dispatcher tracker domain. Inr (PNone, dispatcher))\<rparr>"
         and ops = "[]"]
  by (simp add: arguments_of_def ActionExecutor_init_def)

end
